theory Spec2Isabelle
  imports Main
begin

section \<open>Persisted layout: the four relations of the migration\<close>

text \<open>
  Keys are UUIDs and timestamps are \<open>timestamptz\<close> values; both are modelled as natural
  numbers. A nullable column is an \<open>option\<close>. Strings are lists of 8-bit characters.
\<close>

type_synonym uuid = nat
type_synonym timestamptz = nat

record profiles_row =
  profile_id :: uuid
  username :: string
  display_name :: string
  avatar_url :: "string option"
  profile_created_at :: timestamptz
  profile_updated_at :: timestamptz

record chats_row =
  chat_id :: uuid
  chat_type :: string
  chat_name :: "string option"
  chat_avatar_url :: "string option"
  created_by :: "uuid option"
  chat_created_at :: timestamptz
  chat_updated_at :: timestamptz

record chat_members_row =
  member_id :: uuid
  member_chat_id :: uuid
  member_user_id :: uuid
  joined_at :: timestamptz

record messages_row =
  message_id :: uuid
  message_chat_id :: uuid
  sender_id :: uuid
  content :: string
  created_at :: timestamptz

text \<open>
  The store: the four tables in insertion order, the supply of \<open>gen_random_uuid()\<close>
  (a counter: every generated key is new) and the value of \<open>NOW()\<close>.
\<close>

record store =
  profiles :: "profiles_row list"
  chats :: "chats_row list"
  chat_members :: "chat_members_row list"
  messages :: "messages_row list"
  next_uuid :: uuid
  now :: timestamptz

datatype pg_error =
    RlsViolation string
  | UniqueViolation string
  | ForeignKeyViolation string
  | CheckViolation string
  | NotSingleRow

text \<open>The client's \<open>{ data, error }\<close> response is a sum; \<open>data\<close> is \<open>null\<close> on an error.\<close>

definition data :: "pg_error + 'a \<Rightarrow> 'a option" where
  "data r = (case r of Inl e \<Rightarrow> None | Inr v \<Rightarrow> Some v)"

text \<open>\<open>.single()\<close>: exactly one row, an error otherwise.\<close>

definition single :: "'a list \<Rightarrow> pg_error + 'a" where
  "single rows = (case rows of [r] \<Rightarrow> Inr r | _ \<Rightarrow> Inl NotSingleRow)"

section \<open>Row-level security policies\<close>

text \<open>
  \<open>auth\<close> is \<open>auth.uid()\<close>: the session's principal, \<open>None\<close> when nobody is signed
  in (a comparison with \<open>NULL\<close> is never true). A \<open>USING\<close> expression filters the rows a
  \<open>SELECT\<close> returns; a \<open>WITH CHECK\<close> expression gates each row of an \<open>INSERT\<close>, and the
  policies of one command are alternatives. The sub-select of a policy runs as the caller:
  it sees the rows that the \<open>SELECT\<close> policies of its table show. For the sub-selects on
  \<open>chat_members\<close> this changes nothing, since they ask for the caller's own rows, which
  are the rows the caller may see. The table \<open>auth.users\<close> is outside this layout, so the
  foreign keys into it are not checked, and a principal need not have a profile.
\<close>

definition profiles_viewable_by_everyone :: "uuid option \<Rightarrow> profiles_row \<Rightarrow> bool" where
  "profiles_viewable_by_everyone auth p = True"

definition view_own_chat_memberships :: "uuid option \<Rightarrow> chat_members_row \<Rightarrow> bool" where
  "view_own_chat_memberships auth m = (auth = Some (member_user_id m))"

definition view_chats_they_are_members_of :: "uuid option \<Rightarrow> store \<Rightarrow> chats_row \<Rightarrow> bool" where
  "view_chats_they_are_members_of auth st c =
     (\<exists>m \<in> set (chat_members st). member_chat_id m = chat_id c \<and> auth = Some (member_user_id m))"

definition view_messages_in_their_chats :: "uuid option \<Rightarrow> store \<Rightarrow> messages_row \<Rightarrow> bool" where
  "view_messages_in_their_chats auth st msg =
     (\<exists>m \<in> set (chat_members st).
        member_chat_id m = message_chat_id msg \<and> auth = Some (member_user_id m))"

section \<open>The query interface of the data platform\<close>

definition select_profiles :: "uuid option \<Rightarrow> store \<Rightarrow> profiles_row list" where
  "select_profiles auth st = filter (profiles_viewable_by_everyone auth) (profiles st)"

definition select_chat_members :: "uuid option \<Rightarrow> store \<Rightarrow> chat_members_row list" where
  "select_chat_members auth st = filter (view_own_chat_memberships auth) (chat_members st)"

definition select_chats :: "uuid option \<Rightarrow> store \<Rightarrow> chats_row list" where
  "select_chats auth st = filter (view_chats_they_are_members_of auth st) (chats st)"

definition select_messages :: "uuid option \<Rightarrow> store \<Rightarrow> messages_row list" where
  "select_messages auth st = filter (view_messages_in_their_chats auth st) (messages st)"

section \<open>Inserts\<close>

definition users_can_create_chats :: "uuid option \<Rightarrow> uuid option \<Rightarrow> bool" where
  "users_can_create_chats auth creator = (auth \<noteq> None \<and> auth = creator)"

definition insert_own_chat_membership :: "uuid option \<Rightarrow> uuid \<times> uuid \<Rightarrow> bool" where
  "insert_own_chat_membership auth new = (auth = Some (snd new))"

text \<open>The creator policy reads \<open>chats\<close>, of which the caller sees the chats they are a member of.\<close>

definition chat_creators_can_add_members :: "uuid option \<Rightarrow> store \<Rightarrow> uuid \<times> uuid \<Rightarrow> bool" where
  "chat_creators_can_add_members auth st new =
     (auth \<noteq> None \<and> (\<exists>c \<in> set (select_chats auth st). chat_id c = fst new \<and> created_by c = auth))"

definition insert_messages_in_their_chats :: "uuid option \<Rightarrow> store \<Rightarrow> uuid \<times> uuid \<Rightarrow> bool" where
  "insert_messages_in_their_chats auth st new =
     (auth = Some (snd new) \<and>
      (\<exists>m \<in> set (chat_members st). member_chat_id m = fst new \<and> auth = Some (member_user_id m)))"

text \<open>
  \<open>.from('chats').insert({...}).select().single()\<close> is
  \<open>insert into chats (type, name, created_by) ... returning *\<close>. The new row has to pass
  the insert policy and, because the statement returns it, the \<open>SELECT\<close> policy of
  \<open>chats\<close> as well; then the \<open>CHECK\<close> on \<open>type\<close> is tested. A refused statement
  stores nothing.
\<close>

definition insert_chat ::
  "uuid option \<Rightarrow> string \<Rightarrow> string option \<Rightarrow> uuid option \<Rightarrow> store \<Rightarrow> pg_error + (chats_row \<times> store)"
where
  "insert_chat auth ty name creator st =
     (let row = \<lparr>chat_id = next_uuid st, chat_type = ty, chat_name = name,
                  chat_avatar_url = None, created_by = creator,
                  chat_created_at = now st, chat_updated_at = now st\<rparr>
      in if \<not> users_can_create_chats auth creator then Inl (RlsViolation ''chats'')
         else if \<not> view_chats_they_are_members_of auth st row then Inl (RlsViolation ''chats'')
         else if ty \<noteq> ''dm'' \<and> ty \<noteq> ''group'' then Inl (CheckViolation ''chats'')
         else Inr (row, st\<lparr>chats := chats st @ [row], next_uuid := Suc (next_uuid st)\<rparr>))"

text \<open>
  \<open>insert into chat_members (chat_id, user_id) values ...\<close> with several rows. Each row
  has to pass one of the two insert policies, whose sub-select reads the store as it was
  when the statement began (\<open>snapshot\<close>: rows of the same statement are not visible to
  it), and then \<open>UNIQUE(chat_id, user_id)\<close>, which does see the rows already inserted.
\<close>

fun insert_member_rows ::
  "uuid option \<Rightarrow> store \<Rightarrow> (uuid \<times> uuid) list \<Rightarrow> store \<Rightarrow> pg_error + store"
where
  "insert_member_rows auth snapshot [] st = Inr st"
| "insert_member_rows auth snapshot (new # rest) st =
     (if \<not> (insert_own_chat_membership auth new \<or> chat_creators_can_add_members auth snapshot new)
        then Inl (RlsViolation ''chat_members'')
      else if new \<in> set (map (\<lambda>m. (member_chat_id m, member_user_id m)) (chat_members st))
        then Inl (UniqueViolation ''chat_members'')
      else insert_member_rows auth snapshot rest
             (st\<lparr>chat_members := chat_members st @
                    [\<lparr>member_id = next_uuid st, member_chat_id = fst new,
                      member_user_id = snd new, joined_at = now st\<rparr>],
                  next_uuid := Suc (next_uuid st)\<rparr>))"

text \<open>
  The foreign key on \<open>chat_id\<close> is tested when all rows are in. The statement is atomic:
  the caller keeps the old store when it is refused.
\<close>

definition insert_chat_members :: "uuid option \<Rightarrow> (uuid \<times> uuid) list \<Rightarrow> store \<Rightarrow> pg_error + store" where
  "insert_chat_members auth rows st =
     (case insert_member_rows auth st rows st of
        Inl e \<Rightarrow> Inl e
      | Inr st' \<Rightarrow>
          if \<exists>new \<in> set rows. fst new \<notin> set (map chat_id (chats st))
          then Inl (ForeignKeyViolation ''chat_members'')
          else Inr st')"

text \<open>
  \<open>insert into messages (chat_id, sender_id, content) values (...)\<close>: the insert policy,
  then the foreign key on \<open>chat_id\<close>.
\<close>

definition insert_message :: "uuid option \<Rightarrow> uuid \<Rightarrow> uuid \<Rightarrow> string \<Rightarrow> store \<Rightarrow> pg_error + store" where
  "insert_message auth chat sender text st =
     (if \<not> insert_messages_in_their_chats auth st (chat, sender)
        then Inl (RlsViolation ''messages'')
      else if chat \<notin> set (map chat_id (chats st)) then Inl (ForeignKeyViolation ''messages'')
      else Inr (st\<lparr>messages := messages st @
                      [\<lparr>message_id = next_uuid st, message_chat_id = chat, sender_id = sender,
                        content = text, created_at = now st\<rparr>],
                    next_uuid := Suc (next_uuid st)\<rparr>))"

section \<open>Client views of the rows\<close>

text \<open>The projection \<open>username, display_name, avatar_url\<close> of a profile.\<close>

record sender_info =
  sender_username :: string
  sender_display_name :: string
  sender_avatar_url :: "string option"

definition profile_fields :: "profiles_row \<Rightarrow> sender_info" where
  "profile_fields p =
     \<lparr>sender_username = username p, sender_display_name = display_name p,
      sender_avatar_url = avatar_url p\<rparr>"

text \<open>A message of the view: the row and \<open>sender\<close>, which is \<open>null\<close> when the lookup fails.\<close>

record Message =
  row :: messages_row
  sender :: "sender_info option"

record last_message =
  last_content :: string
  last_created_at :: timestamptz

record Chat =
  id :: uuid
  type :: string
  name :: "string option"
  Chat_avatar_url :: "string option"
  updated_at :: timestamptz
  lastMessage :: "last_message option"
  otherUser :: "sender_info option"

section \<open>Chat names (ChatList.tsx, ChatScreen.tsx)\<close>

text \<open>\<open>s || fallback\<close> on a \<open>string | null\<close>: \<open>null\<close> and the empty string are falsy.\<close>

definition or_else :: "string option \<Rightarrow> string \<Rightarrow> string" where
  "or_else s fallback = (case s of None \<Rightarrow> fallback | Some v \<Rightarrow> if v = [] then fallback else v)"

definition getChatName :: "Chat \<Rightarrow> string" where
  "getChatName chat =
     (if type chat = ''group'' then or_else (name chat) ''Unnamed Group''
      else or_else (map_option sender_display_name (otherUser chat)) ''Unknown User'')"

text \<open>ChatScreen's variant reads the component's \<open>chat\<close> state, \<open>null\<close> until loaded.\<close>

definition ChatScreen_getChatName :: "Chat option \<Rightarrow> string" where
  "ChatScreen_getChatName chat =
     (case chat of None \<Rightarrow> []
      | Some c \<Rightarrow>
          if type c = ''group'' then or_else (name c) ''Unnamed Group''
          else or_else (map_option sender_display_name (otherUser c)) ''Unknown User'')"

section \<open>Effects shared by the components: toasts and navigation\<close>

datatype toast_text = Text string | ErrorMessage pg_error

record toast =
  title :: string
  description :: toast_text
  variant :: string

datatype path = RootPath | NewChatPath | ChatPath uuid

record app =
  toasts :: "toast list"
  location :: path

definition error_toast :: "toast_text \<Rightarrow> toast" where
  "error_toast d = \<lparr>title = ''Error'', description = d, variant = ''destructive''\<rparr>"

section \<open>The chat as the list and the screen hold it\<close>

text \<open>
  \<open>{ ...chat, lastMessage, otherUser }\<close> in loadChats and \<open>{ ...chatData, otherUser }\<close>
  in loadChat: the columns of the row, and the two joined fields.
\<close>

definition chat_view :: "chats_row \<Rightarrow> last_message option \<Rightarrow> sender_info option \<Rightarrow> Chat" where
  "chat_view c lm ou =
     \<lparr>id = chat_id c, type = chat_type c, name = chat_name c, Chat_avatar_url = chat_avatar_url c,
      updated_at = chat_updated_at c, lastMessage = lm, otherUser = ou\<rparr>"

text \<open>
  The lookup of the other member of a direct chat, the same in both components:
  \<open>from('chat_members').select('user_id, profiles(username, display_name, avatar_url)')
  .eq('chat_id', chatId).neq('user_id', user.id).single()\<close>. The embedded profile is the
  profile of \<open>user_id\<close>, \<open>null\<close> when there is none.
\<close>

definition otherMember ::
  "uuid option \<Rightarrow> uuid \<Rightarrow> uuid \<Rightarrow> store \<Rightarrow> pg_error + (uuid \<times> sender_info option)"
where
  "otherMember auth user chatId st =
     single (map (\<lambda>m. (member_user_id m,
                        map_option profile_fields
                          (find (\<lambda>p. profile_id p = member_user_id m) (select_profiles auth st))))
                 (filter (\<lambda>m. member_chat_id m = chatId \<and> member_user_id m \<noteq> user)
                         (select_chat_members auth st)))"

text \<open>
  \<open>let otherUser = null; if (chat.type === 'dm') { ...; if (otherMember) otherUser =
  otherMember.profiles }\<close>.
\<close>

definition dm_otherUser :: "uuid option \<Rightarrow> uuid \<Rightarrow> chats_row \<Rightarrow> store \<Rightarrow> sender_info option" where
  "dm_otherUser auth user c st =
     (if chat_type c = ''dm'' then
        (case data (otherMember auth user (chat_id c) st) of
           None \<Rightarrow> None
         | Some found \<Rightarrow> snd found)
      else None)"

section \<open>ChatList.tsx\<close>

record ChatList =
  list_chats :: "Chat list"
  list_loading :: bool

text \<open>
  \<open>from('messages').select('content, created_at').eq('chat_id', chat.id)
  .order('created_at', { ascending: false }).limit(1).single()\<close>; only \<open>data\<close> is read.
\<close>

definition last_message_of :: "uuid option \<Rightarrow> chats_row \<Rightarrow> store \<Rightarrow> last_message option" where
  "last_message_of auth c st =
     data (single (map (\<lambda>m. \<lparr>last_content = content m, last_created_at = created_at m\<rparr>)
                       (take 1 (rev (sort_key created_at
                          (filter (\<lambda>m. message_chat_id m = chat_id c) (select_messages auth st)))))))"

text \<open>
  loadChats: the caller's memberships, each with its embedded chat (\<open>null\<close> when the chat
  is not visible), then the details of every chat. Reading \<open>chat.id\<close> of a missing chat
  throws; the error is logged and the list stays as it was.
\<close>

definition loadChats :: "uuid option \<Rightarrow> store \<Rightarrow> ChatList \<Rightarrow> ChatList" where
  "loadChats auth st cl =
     (case auth of
        None \<Rightarrow> cl\<lparr>list_loading := False\<rparr>
      | Some user \<Rightarrow>
          (let chatMembers = filter (\<lambda>m. member_user_id m = user) (select_chat_members auth st);
               joined = map (\<lambda>m. find (\<lambda>c. chat_id c = member_chat_id m) (select_chats auth st))
                            chatMembers
           in case those joined of
                None \<Rightarrow> cl\<lparr>list_loading := False\<rparr>
              | Some found \<Rightarrow>
                  cl\<lparr>list_chats :=
                        map (\<lambda>c. chat_view c (last_message_of auth c st) (dm_otherUser auth user c st))
                            found,
                      list_loading := False\<rparr>))"

section \<open>ChatScreen.tsx\<close>

record ChatScreen = app +
  chat :: "Chat option"
  screen_messages :: "Message list"
  newMessage :: string
  loading :: bool
  sending :: bool
  currentUserId :: "uuid option"

text \<open>
  loadChat: the session check, the chat row (\<open>.eq('id', chatId).single()\<close>), the other
  member of a direct chat; \<open>catch\<close> shows a toast and navigates to the root, and
  \<open>finally\<close> ends loading.
\<close>

definition loadChat :: "uuid option \<Rightarrow> uuid \<Rightarrow> store \<Rightarrow> ChatScreen \<Rightarrow> ChatScreen" where
  "loadChat auth chatId st cs =
     (case auth of
        None \<Rightarrow> cs\<lparr>loading := False\<rparr>
      | Some user \<Rightarrow>
          (case single (filter (\<lambda>c. chat_id c = chatId) (select_chats auth st)) of
             Inl chatError \<Rightarrow>
               cs\<lparr>toasts := toasts cs @ [error_toast (Text ''Failed to load chat'')],
                  location := RootPath, loading := False, currentUserId := Some user\<rparr>
           | Inr chatData \<Rightarrow>
               cs\<lparr>chat := Some (chat_view chatData None (dm_otherUser auth user chatData st)),
                  loading := False, currentUserId := Some user\<rparr>))"

text \<open>
  \<open>String.prototype.trim\<close>: the white space and line terminator characters, here those
  with an 8-bit code (tab, LF, VT, FF, CR, space, NBSP), are removed at both ends.
\<close>

definition is_white_space :: "char \<Rightarrow> bool" where
  "is_white_space c = ((of_char c :: nat) \<in> {9, 10, 11, 12, 13, 32, 160})"

definition trim :: "string \<Rightarrow> string" where
  "trim s = rev (dropWhile is_white_space (rev (dropWhile is_white_space s)))"

text \<open>
  The history query of loadMessages:
  \<open>from('messages').select('*').eq('chat_id', chatId).order('created_at', { ascending: true })\<close>.
\<close>

definition history :: "uuid option \<Rightarrow> uuid \<Rightarrow> store \<Rightarrow> pg_error + messages_row list" where
  "history auth chatId st =
     Inr (sort_key created_at (filter (\<lambda>msg. message_chat_id msg = chatId) (select_messages auth st)))"

text \<open>
  \<open>from('profiles').select('username, display_name, avatar_url').eq('id', sender_id).single()\<close>.
\<close>

definition sender_profile :: "uuid option \<Rightarrow> store \<Rightarrow> uuid \<Rightarrow> pg_error + sender_info" where
  "sender_profile auth st uid =
     single (map profile_fields (filter (\<lambda>p. profile_id p = uid) (select_profiles auth st)))"

text \<open>Only \<open>data\<close> of the profile response is read; its error is dropped.\<close>

definition with_sender :: "uuid option \<Rightarrow> store \<Rightarrow> messages_row \<Rightarrow> Message" where
  "with_sender auth st msg = \<lparr>row = msg, sender = data (sender_profile auth st (sender_id msg))\<rparr>"

definition loadMessages :: "uuid option \<Rightarrow> uuid \<Rightarrow> store \<Rightarrow> ChatScreen \<Rightarrow> ChatScreen" where
  "loadMessages auth chatId st cs =
     (case history auth chatId st of
        Inl messagesError \<Rightarrow> cs
      | Inr messagesData \<Rightarrow> cs\<lparr>screen_messages := map (with_sender auth st) messagesData\<rparr>)"

text \<open>
  The handler of the realtime subscription, for one \<open>INSERT\<close> event:
  \<open>setMessages((prev) => [...prev, { ...newMsg, sender }])\<close>.
\<close>

definition on_insert :: "uuid option \<Rightarrow> store \<Rightarrow> messages_row \<Rightarrow> ChatScreen \<Rightarrow> ChatScreen" where
  "on_insert auth st newMsg cs =
     cs\<lparr>screen_messages := screen_messages cs @ [with_sender auth st newMsg]\<rparr>"

text \<open>
  The updates of the list of one mounted screen. loadMessages is started without
  \<open>await\<close> and replaces the list when its fetches are done; the handler of an event
  appends when its profile fetch is done. The code does not fix the order in which these
  complete, so the order is an input: each completion comes with the store it read.
\<close>

datatype completion = HistoryLoaded store | EventHandled store messages_row

fun settle :: "uuid option \<Rightarrow> uuid \<Rightarrow> completion \<Rightarrow> ChatScreen \<Rightarrow> ChatScreen" where
  "settle auth chatId (HistoryLoaded st) cs = loadMessages auth chatId st cs"
| "settle auth chatId (EventHandled st newMsg) cs = on_insert auth st newMsg cs"

fun settle_all :: "uuid option \<Rightarrow> uuid \<Rightarrow> completion list \<Rightarrow> ChatScreen \<Rightarrow> ChatScreen" where
  "settle_all auth chatId [] cs = cs"
| "settle_all auth chatId (done # rest) cs = settle_all auth chatId rest (settle auth chatId done cs)"

text \<open>
  sendMessage: the guard on the trimmed input and on \<open>sending\<close>, the session check, the
  insert; \<open>catch\<close> shows the error as a toast and \<open>finally\<close> resets \<open>sending\<close>.
\<close>

definition sendMessage :: "uuid option \<Rightarrow> uuid \<Rightarrow> store \<times> ChatScreen \<Rightarrow> store \<times> ChatScreen" where
  "sendMessage auth chatId w =
     (let st = fst w; cs = snd w in
      if trim (newMessage cs) = [] \<or> sending cs then (st, cs)
      else
        (case auth of
           None \<Rightarrow> (st, cs\<lparr>sending := False\<rparr>)
         | Some user \<Rightarrow>
             (case insert_message auth chatId user (trim (newMessage cs)) st of
                Inl error \<Rightarrow>
                  (st, cs\<lparr>toasts := toasts cs @ [error_toast (ErrorMessage error)],
                          sending := False\<rparr>)
              | Inr st' \<Rightarrow> (st', cs\<lparr>newMessage := [], sending := False\<rparr>))))"

section \<open>NewChat.tsx\<close>

record NewChat = app +
  selectedUsers :: "profiles_row list"
  groupName :: string
  creatingChat :: bool

text \<open>
  The memberships of the caller joined with their chats:
  \<open>from('chat_members').select('chat_id, chats!inner(id, type)').eq('user_id', user.id)\<close>.
\<close>

definition existingChats :: "uuid option \<Rightarrow> uuid \<Rightarrow> store \<Rightarrow> (uuid \<times> chats_row) list" where
  "existingChats auth user st =
     concat (map (\<lambda>m. map (\<lambda>c. (member_chat_id m, c))
                         (filter (\<lambda>c. chat_id c = member_chat_id m) (select_chats auth st)))
                 (filter (\<lambda>m. member_user_id m = user) (select_chat_members auth st)))"

text \<open>
  \<open>from('chat_members').select('user_id').eq('chat_id', chatId).neq('user_id', user.id)\<close>.
\<close>

definition otherMembers :: "uuid option \<Rightarrow> uuid \<Rightarrow> uuid \<Rightarrow> store \<Rightarrow> uuid list" where
  "otherMembers auth user chatId st =
     map member_user_id
       (filter (\<lambda>m. member_chat_id m = chatId \<and> member_user_id m \<noteq> user) (select_chat_members auth st))"

text \<open>The loop over \<open>existingChats\<close>: the first direct chat whose only other member is \<open>other\<close>.\<close>

fun find_existing_dm :: "uuid option \<Rightarrow> uuid \<Rightarrow> uuid \<Rightarrow> store \<Rightarrow> (uuid \<times> chats_row) list \<Rightarrow> uuid option" where
  "find_existing_dm auth user other st [] = None"
| "find_existing_dm auth user other st (member # rest) =
     (if chat_type (snd member) = ''dm'' \<and>
         (case otherMembers auth user (fst member) st of [m] \<Rightarrow> m = other | _ \<Rightarrow> False)
      then Some (fst member)
      else find_existing_dm auth user other st rest)"

definition createDM :: "uuid option \<Rightarrow> profiles_row \<Rightarrow> store \<times> NewChat \<Rightarrow> store \<times> NewChat" where
  "createDM auth other w =
     (let st = fst w; nc = snd w in
      case auth of
        None \<Rightarrow> (st, nc\<lparr>creatingChat := False\<rparr>)
      | Some user \<Rightarrow>
          (case find_existing_dm auth user (profile_id other) st (existingChats auth user st) of
             Some found \<Rightarrow> (st, nc\<lparr>location := ChatPath found, creatingChat := False\<rparr>)
           | None \<Rightarrow>
               (case insert_chat auth ''dm'' None (Some user) st of
                  Inl chatError \<Rightarrow>
                    (st, nc\<lparr>toasts := toasts nc @ [error_toast (ErrorMessage chatError)],
                            creatingChat := False\<rparr>)
                | Inr created \<Rightarrow>
                    (let newChat = fst created; st1 = snd created in
                     case insert_chat_members auth
                            [(chat_id newChat, user), (chat_id newChat, profile_id other)] st1 of
                       Inl membersError \<Rightarrow>
                         (st1, nc\<lparr>toasts := toasts nc @ [error_toast (ErrorMessage membersError)],
                                  creatingChat := False\<rparr>)
                     | Inr st2 \<Rightarrow>
                         (st2, nc\<lparr>location := ChatPath (chat_id newChat),
                                  creatingChat := False\<rparr>)))))"

definition createGroup :: "uuid option \<Rightarrow> store \<times> NewChat \<Rightarrow> store \<times> NewChat" where
  "createGroup auth w =
     (let st = fst w; nc = snd w in
      if selectedUsers nc = [] then
        (st, nc\<lparr>toasts := toasts nc @ [error_toast (Text ''Please select at least one user'')]\<rparr>)
      else
        (case auth of
           None \<Rightarrow> (st, nc\<lparr>creatingChat := False\<rparr>)
         | Some user \<Rightarrow>
             (case insert_chat auth ''group''
                     (Some (if groupName nc = [] then ''New Group'' else groupName nc))
                     (Some user) st of
                Inl chatError \<Rightarrow>
                  (st, nc\<lparr>toasts := toasts nc @ [error_toast (ErrorMessage chatError)],
                          creatingChat := False\<rparr>)
              | Inr created \<Rightarrow>
                  (let newChat = fst created; st1 = snd created;
                       members = (chat_id newChat, user) #
                                 map (\<lambda>u. (chat_id newChat, profile_id u)) (selectedUsers nc)
                   in
                   case insert_chat_members auth members st1 of
                     Inl membersError \<Rightarrow>
                       (st1, nc\<lparr>toasts := toasts nc @ [error_toast (ErrorMessage membersError)],
                                creatingChat := False\<rparr>)
                   | Inr st2 \<Rightarrow>
                       (st2, nc\<lparr>location := ChatPath (chat_id newChat),
                                creatingChat := False\<rparr>)))))"

text \<open>
  The two buttons that start these operations: \<open>disabled={creatingChat}\<close> on a found
  user, \<open>disabled={selectedUsers.length === 0 || creatingChat}\<close> on Create Group. A
  disabled button does nothing.
\<close>

definition user_button :: "uuid option \<Rightarrow> profiles_row \<Rightarrow> store \<times> NewChat \<Rightarrow> store \<times> NewChat" where
  "user_button auth user w = (if creatingChat (snd w) then w else createDM auth user w)"

definition Create_Group_button :: "uuid option \<Rightarrow> store \<times> NewChat \<Rightarrow> store \<times> NewChat" where
  "Create_Group_button auth w =
     (if selectedUsers (snd w) = [] \<or> creatingChat (snd w) then w else createGroup auth w)"

section \<open>Membership\<close>

definition membersOf :: "store \<Rightarrow> uuid \<Rightarrow> uuid list" where
  "membersOf st c = map member_user_id (filter (\<lambda>m. member_chat_id m = c) (chat_members st))"

definition isMember :: "store \<Rightarrow> uuid \<Rightarrow> uuid \<Rightarrow> bool" where
  "isMember st c p = (p \<in> set (membersOf st c))"

section \<open>Generated keys\<close>

text \<open>Generated keys are below the counter, so the next key is new.\<close>

definition ids_fresh :: "store \<Rightarrow> bool" where
  "ids_fresh st =
     ((\<forall>c \<in> set (chats st). chat_id c < next_uuid st) \<and>
      (\<forall>m \<in> set (chat_members st). member_chat_id m < next_uuid st))"

section \<open>Example data\<close>

definition alice :: profiles_row where
  "alice = \<lparr>profile_id = 1, username = ''alice'', display_name = ''Alice'', avatar_url = None,
            profile_created_at = 0, profile_updated_at = 0\<rparr>"

definition bob :: profiles_row where
  "bob = \<lparr>profile_id = 2, username = ''bob_'', display_name = ''Bob'', avatar_url = None,
          profile_created_at = 0, profile_updated_at = 0\<rparr>"

definition fresh_store :: store where
  "fresh_store = \<lparr>profiles = [alice, bob], chats = [], chat_members = [], messages = [],
                  next_uuid = 0, now = 0\<rparr>"

definition new_chat_form :: NewChat where
  "new_chat_form = \<lparr>toasts = [], location = NewChatPath, selectedUsers = [], groupName = [],
                    creatingChat = False\<rparr>"

definition unnamed_group_form :: NewChat where
  "unnamed_group_form = new_chat_form\<lparr>selectedUsers := [bob]\<rparr>"

definition chats_refused :: toast where
  "chats_refused = error_toast (ErrorMessage (RlsViolation ''chats''))"

text \<open>
  A direct chat of principals 1 and 2 with two messages, stored out of time order; only
  principal 1 has a profile.
\<close>

definition hello :: messages_row where
  "hello = \<lparr>message_id = 3, message_chat_id = 0, sender_id = 2, content = ''hello'', created_at = 5\<rparr>"

definition earlier :: messages_row where
  "earlier = \<lparr>message_id = 4, message_chat_id = 0, sender_id = 1, content = ''hi'', created_at = 4\<rparr>"

definition newer :: messages_row where
  "newer = \<lparr>message_id = 5, message_chat_id = 0, sender_id = 1, content = ''bye'', created_at = 7\<rparr>"

definition example_store :: store where
  "example_store =
     \<lparr>profiles = [alice],
      chats = [\<lparr>chat_id = 0, chat_type = ''dm'', chat_name = None, chat_avatar_url = None,
                created_by = Some 1, chat_created_at = 1, chat_updated_at = 1\<rparr>],
      chat_members = [\<lparr>member_id = 1, member_chat_id = 0, member_user_id = 1, joined_at = 1\<rparr>,
                      \<lparr>member_id = 2, member_chat_id = 0, member_user_id = 2, joined_at = 1\<rparr>],
      messages = [hello, earlier],
      next_uuid = 5, now = 6\<rparr>"

text \<open>The same chat in a store where both principals have profiles.\<close>

definition direct_store :: store where
  "direct_store = example_store\<lparr>profiles := [alice, bob]\<rparr>"

definition empty_screen :: ChatScreen where
  "empty_screen = \<lparr>toasts = [], location = ChatPath 0, chat = None, screen_messages = [],
                    newMessage = [], loading = True, sending = False, currentUserId = None\<rparr>"

definition blank_screen :: ChatScreen where
  "blank_screen = empty_screen\<lparr>newMessage := ''   ''\<rparr>"

definition empty_list :: ChatList where
  "empty_list = \<lparr>list_chats = [], list_loading = True\<rparr>"

section \<open>History: membership gate, order, sender enrichment\<close>

lemma view_messages_iff_member:
  "view_messages_in_their_chats (Some p) st msg = isMember st (message_chat_id msg) p"
  by (auto simp: view_messages_in_their_chats_def isMember_def membersOf_def)

lemma history_rows:
  "history auth C st =
     Inr (sort_key created_at (filter (\<lambda>msg. message_chat_id msg = C) (select_messages auth st)))"
  by (simp add: history_def)

lemma loadMessages_rows:
  "screen_messages (loadMessages auth C st cs) =
     map (with_sender auth st)
       (sort_key created_at (filter (\<lambda>msg. message_chat_id msg = C) (select_messages auth st)))"
  by (simp add: loadMessages_def history_def)

lemma row_with_sender: "row (with_sender auth st msg) = msg"
  by (simp add: with_sender_def)

lemma map_row_with_sender: "map row (map (with_sender auth st) msgs) = msgs"
  by (simp add: comp_def row_with_sender)

text \<open>
  C1. For every principal \<open>P\<close> and conversation \<open>C\<close>, the history that \<open>P\<close> loads
  holds stored messages of \<open>C\<close> only, and only when \<open>P\<close> is a member of \<open>C\<close> at the
  time of the call; for a non-member the query answers with no rows, not with an error,
  and the screen shows an empty list.
\<close>

theorem history_only_for_members:
  "history (Some P) C st = Inr (map row (screen_messages (loadMessages (Some P) C st cs))) \<and>
   (\<forall>msg \<in> set (screen_messages (loadMessages (Some P) C st cs)).
      row msg \<in> set (messages st) \<and> message_chat_id (row msg) = C \<and> isMember st C P) \<and>
   (\<not> isMember st C P \<longrightarrow>
      history (Some P) C st = Inr [] \<and> screen_messages (loadMessages (Some P) C st cs) = [])"
proof (intro conjI)
  show "history (Some P) C st = Inr (map row (screen_messages (loadMessages (Some P) C st cs)))"
    by (simp only: loadMessages_rows map_row_with_sender history_rows)
  show "\<forall>msg \<in> set (screen_messages (loadMessages (Some P) C st cs)).
      row msg \<in> set (messages st) \<and> message_chat_id (row msg) = C \<and> isMember st C P"
    by (auto simp: loadMessages_rows row_with_sender select_messages_def view_messages_iff_member)
  show "\<not> isMember st C P \<longrightarrow>
      history (Some P) C st = Inr [] \<and> screen_messages (loadMessages (Some P) C st cs) = []"
  proof
    assume non: "\<not> isMember st C P"
    have "filter (\<lambda>msg. message_chat_id msg = C) (select_messages (Some P) st) = []"
      using non by (auto simp: select_messages_def view_messages_iff_member filter_empty_conv)
    then show "history (Some P) C st = Inr [] \<and> screen_messages (loadMessages (Some P) C st cs) = []"
      by (simp add: loadMessages_rows history_rows)
  qed
qed

text \<open>
  In the example, principal 3 is no member of chat 0 and gets nothing; principal 1 is a
  member and gets both messages.
\<close>

theorem history_only_for_members_witness:
  "\<not> isMember example_store 0 3 \<and>
   history (Some 3) 0 example_store = Inr [] \<and>
   screen_messages (loadMessages (Some 3) 0 example_store empty_screen) = [] \<and>
   isMember example_store 0 1 \<and>
   map row (screen_messages (loadMessages (Some 1) 0 example_store empty_screen)) = [earlier, hello]"
proof -
  have stranger: "\<not> isMember example_store 0 3" by code_simp
  have member: "isMember example_store 0 1" by code_simp
  have rows: "history (Some 1) 0 example_store = Inr [earlier, hello]" by code_simp
  from history_only_for_members [of 3 0 example_store empty_screen] stranger
  have "history (Some 3) 0 example_store = Inr [] \<and>
        screen_messages (loadMessages (Some 3) 0 example_store empty_screen) = []"
    by blast
  moreover from history_only_for_members [of 1 0 example_store empty_screen] rows
  have "map row (screen_messages (loadMessages (Some 1) 0 example_store empty_screen)) = [earlier, hello]"
    by simp
  ultimately show ?thesis using stranger member by simp
qed

text \<open>
  C5. For every conversation and caller, the history query answers, and its rows, as
  well as the list the screen shows, are in non-decreasing order of \<open>created_at\<close>.
\<close>

theorem history_ascending:
  "(\<exists>msgs. history auth C st = Inr msgs \<and> sorted (map created_at msgs)) \<and>
   sorted (map (\<lambda>m. created_at (row m)) (screen_messages (loadMessages auth C st cs)))"
  by (simp add: history_rows loadMessages_rows comp_def row_with_sender)

text \<open>The example stores its two messages out of order; the loaded list is ascending.\<close>

theorem history_ascending_witness:
  "map created_at (messages example_store) = [5, 4] \<and>
   sorted (map (\<lambda>m. created_at (row m))
             (screen_messages (loadMessages (Some 1) 0 example_store empty_screen)))"
  using history_ascending [of "Some 1" 0 example_store empty_screen]
  by (simp add: example_store_def hello_def earlier_def)

lemma sender_profile_unresolved:
  assumes "uid \<notin> profile_id ` set (profiles st)"
  shows "sender_profile auth st uid = Inl NotSingleRow"
proof -
  from assms have "filter (\<lambda>p. profile_id p = uid) (select_profiles auth st) = []"
    by (auto simp: select_profiles_def filter_empty_conv)
  then show ?thesis by (simp add: sender_profile_def single_def)
qed

text \<open>
  C7. The rows of a loaded history do not depend on the profiles table: whatever it
  holds, the list has exactly the rows the history query returns. A message whose sender
  has no profile is in the list with \<open>sender\<close> empty; the failed lookup is an error
  response that loadMessages drops.
\<close>

theorem unresolved_sender_kept:
  "map row (screen_messages (loadMessages auth C (st\<lparr>profiles := ps\<rparr>) cs)) =
     map row (screen_messages (loadMessages auth C st cs)) \<and>
   history auth C st = Inr (map row (screen_messages (loadMessages auth C st cs))) \<and>
   (\<forall>msg \<in> set (screen_messages (loadMessages auth C st cs)).
      sender_id (row msg) \<notin> profile_id ` set (profiles st) \<longrightarrow> sender msg = None)"
proof (intro conjI)
  have "select_messages auth (st\<lparr>profiles := ps\<rparr>) = select_messages auth st"
    by (simp add: select_messages_def view_messages_in_their_chats_def[abs_def])
  then show "map row (screen_messages (loadMessages auth C (st\<lparr>profiles := ps\<rparr>) cs)) =
     map row (screen_messages (loadMessages auth C st cs))"
    by (simp only: loadMessages_rows map_row_with_sender)
  show "history auth C st = Inr (map row (screen_messages (loadMessages auth C st cs)))"
    by (simp only: loadMessages_rows map_row_with_sender history_rows)
  show "\<forall>msg \<in> set (screen_messages (loadMessages auth C st cs)).
      sender_id (row msg) \<notin> profile_id ` set (profiles st) \<longrightarrow> sender msg = None"
    by (auto simp: loadMessages_rows with_sender_def sender_profile_unresolved data_def)
qed

text \<open>
  In the example the sender of \<open>hello\<close>, principal 2, has no profile: the message is
  loaded, after the earlier one, with no sender attached.
\<close>

theorem unresolved_sender_kept_witness:
  "sender_id hello \<notin> profile_id ` set (profiles example_store) \<and>
   screen_messages (loadMessages (Some 1) 0 example_store empty_screen) =
     [\<lparr>row = earlier, sender = Some (profile_fields alice)\<rparr>, \<lparr>row = hello, sender = None\<rparr>]"
proof -
  let ?loaded = "screen_messages (loadMessages (Some 1) 0 example_store empty_screen)"
  have unresolved: "sender_id hello \<notin> profile_id ` set (profiles example_store)"
    by (simp add: hello_def example_store_def alice_def)
  have loaded: "?loaded = [\<lparr>row = earlier, sender = Some (profile_fields alice)\<rparr>,
                           with_sender (Some 1) example_store hello]"
    by code_simp
  then have "with_sender (Some 1) example_store hello \<in> set ?loaded" by simp
  with unresolved_sender_kept [where auth = "Some 1" and C = 0 and st = example_store
      and cs = empty_screen and ps = "[]"] unresolved
  have "sender (with_sender (Some 1) example_store hello) = None"
    by (auto simp: row_with_sender)
  then have "with_sender (Some 1) example_store hello = \<lparr>row = hello, sender = None\<rparr>"
    by (simp add: with_sender_def)
  with loaded unresolved show ?thesis by simp
qed

section \<open>The live feed\<close>

lemma on_insert_appends:
  "screen_messages (on_insert auth st newMsg cs) = screen_messages cs @ [with_sender auth st newMsg]"
  by (simp add: on_insert_def)

lemma settle_all_append:
  "settle_all auth C (xs @ ys) cs = settle_all auth C ys (settle_all auth C xs cs)"
  by (induction xs arbitrary: cs) simp_all

lemma events_after_appended:
  "screen_messages (settle_all auth C (map (\<lambda>ev. EventHandled (fst ev) (snd ev)) evs) cs) =
     screen_messages cs @ map (\<lambda>ev. with_sender auth (fst ev) (snd ev)) evs"
  by (induction evs arbitrary: cs) (simp_all add: on_insert_appends)

lemma load_replaces:
  "screen_messages (loadMessages auth C st cs') = screen_messages (loadMessages auth C st cs)"
  by (simp add: loadMessages_rows)

text \<open>
  C3, as the code has it. Take any order of completions in which the history load is
  applied once, some updates before it and only event handlers after it. What came
  before the load is overwritten by it, and every event handled after it is appended to
  the end of the list without a look at what the list holds: the rows of the list are
  the rows of the loaded history followed by the rows of those events, in the order in
  which their handlers complete. So the list is free of repeated message ids exactly
  when the ids of the loaded history and of those events, taken together, are.
\<close>

theorem merged_view_ids:
  "map row (screen_messages
       (settle_all auth C
          (before @ HistoryLoaded st # map (\<lambda>ev. EventHandled (fst ev) (snd ev)) evs) cs)) =
     map row (screen_messages (loadMessages auth C st cs)) @ map snd evs \<and>
   distinct (map (\<lambda>m. message_id (row m))
       (screen_messages
          (settle_all auth C
             (before @ HistoryLoaded st # map (\<lambda>ev. EventHandled (fst ev) (snd ev)) evs) cs))) =
     distinct (map (\<lambda>m. message_id (row m)) (screen_messages (loadMessages auth C st cs)) @
               map (\<lambda>ev. message_id (snd ev)) evs)"
proof -
  have "screen_messages
       (settle_all auth C
          (before @ HistoryLoaded st # map (\<lambda>ev. EventHandled (fst ev) (snd ev)) evs) cs) =
     screen_messages (loadMessages auth C st cs) @
       map (\<lambda>ev. with_sender auth (fst ev) (snd ev)) evs"
    by (simp add: settle_all_append events_after_appended
        load_replaces [of auth C st "settle_all auth C before cs" cs])
  then show ?thesis by (simp add: comp_def row_with_sender)
qed

text \<open>
  The event for \<open>hello\<close> is handled before the load and overwritten by it; the event
  for a message that the history does not hold is handled after it and merged without
  repetition.
\<close>

theorem merged_view_ids_witness:
  "map row (screen_messages
       (settle_all (Some 1) 0
          [EventHandled example_store hello, HistoryLoaded example_store,
           EventHandled example_store newer] empty_screen)) = [earlier, hello, newer] \<and>
   distinct (map (\<lambda>m. message_id (row m))
       (screen_messages
          (settle_all (Some 1) 0
             [EventHandled example_store hello, HistoryLoaded example_store,
              EventHandled example_store newer] empty_screen)))"
proof -
  let ?view = "screen_messages
       (settle_all (Some 1) 0
          [EventHandled example_store hello, HistoryLoaded example_store,
           EventHandled example_store newer] empty_screen)"
  have rows: "map row (screen_messages (loadMessages (Some 1) 0 example_store empty_screen)) =
              [earlier, hello]"
    by code_simp
  have ids: "distinct (map message_id [earlier, hello, newer])"
    by (simp add: earlier_def hello_def newer_def)
  from merged_view_ids [where auth = "Some 1" and C = 0 and st = example_store
      and cs = empty_screen and before = "[EventHandled example_store hello]"
      and evs = "[(example_store, newer)]"] rows
  have merged: "map row ?view = [earlier, hello, newer]"
    by simp
  have "map (\<lambda>m. message_id (row m)) ?view = map message_id (map row ?view)"
    by (simp add: comp_def)
  with merged ids show ?thesis by simp
qed

text \<open>
  C3 as stated fails: the event for \<open>hello\<close>, a message the loaded history already
  holds, is handled after the load and appended again, and its id is in the list twice.
\<close>

theorem merged_view_duplicate:
  "map row (screen_messages (loadMessages (Some 1) 0 example_store empty_screen)) =
     [earlier, hello] \<and>
   map (\<lambda>m. message_id (row m))
     (screen_messages
        (settle_all (Some 1) 0 [HistoryLoaded example_store, EventHandled example_store hello]
           empty_screen)) = [4, 3, 3] \<and>
   \<not> distinct (map (\<lambda>m. message_id (row m))
       (screen_messages
          (settle_all (Some 1) 0 [HistoryLoaded example_store, EventHandled example_store hello]
             empty_screen)))"
  by code_simp

section \<open>Sending\<close>

lemma dropWhile_all_dropped:
  "(\<forall>x \<in> set (dropWhile P xs). P x) \<longleftrightarrow> (\<forall>x \<in> set xs. P x)"
proof
  assume all: "\<forall>x \<in> set (dropWhile P xs). P x"
  have "dropWhile P xs = []"
  proof (rule ccontr)
    assume ne: "dropWhile P xs \<noteq> []"
    then have "\<not> P (hd (dropWhile P xs))" by (rule hd_dropWhile)
    moreover have "hd (dropWhile P xs) \<in> set (dropWhile P xs)" using ne by simp
    ultimately show False using all by blast
  qed
  then show "\<forall>x \<in> set xs. P x" by (simp add: dropWhile_eq_Nil_conv)
next
  assume "\<forall>x \<in> set xs. P x"
  then show "\<forall>x \<in> set (dropWhile P xs). P x" by (auto dest: set_dropWhileD)
qed

text \<open>The trimmed form is empty exactly for the empty and the white-space-only strings.\<close>

lemma trim_empty_iff: "trim s = [] \<longleftrightarrow> (\<forall>c \<in> set s. is_white_space c)"
  by (simp add: trim_def dropWhile_eq_Nil_conv dropWhile_all_dropped)

text \<open>
  C4, as the code has it. For every conversation, session and input whose trimmed form
  is empty (the empty and the white-space-only inputs), sendMessage returns at its first
  guard: the store is the same, so no message is stored, and the screen is the same, so
  no error is shown either.
\<close>

theorem blank_message_silently_dropped:
  "trim (newMessage cs) = [] \<Longrightarrow> sendMessage auth C (st, cs) = (st, cs)"
  by (simp add: sendMessage_def)

text \<open>Three spaces, sent by a member of the chat: nothing changes.\<close>

theorem blank_message_silently_dropped_witness:
  "trim (newMessage blank_screen) = [] \<and>
   sendMessage (Some 1) 0 (example_store, blank_screen) = (example_store, blank_screen)"
proof -
  have "\<forall>c \<in> set (newMessage blank_screen). is_white_space c"
    by (simp add: blank_screen_def empty_screen_def is_white_space_def)
  then have blank: "trim (newMessage blank_screen) = []" by (simp add: trim_empty_iff)
  from blank_message_silently_dropped [OF blank, of "Some 1" 0 example_store] blank
  show ?thesis by simp
qed

text \<open>
  C4 as stated fails: the blank input of a member is not answered with an error. No
  toast is raised; the input even stays in the field.
\<close>

theorem blank_message_no_error:
  "isMember example_store 0 1 \<and>
   trim (newMessage blank_screen) = [] \<and>
   toasts (snd (sendMessage (Some 1) 0 (example_store, blank_screen))) = [] \<and>
   newMessage (snd (sendMessage (Some 1) 0 (example_store, blank_screen))) = ''   ''"
  by code_simp

section \<open>Without a session\<close>

text \<open>
  C9. With nobody signed in, no write operation changes the store, shows an error or
  navigates: sendMessage on every input, createDM on every input, where it only resets
  its busy flag, and createGroup on every input with a selection, likewise. The Create
  Group button, the only caller of createGroup, is disabled without a selection, so a
  click on it is silent in every state of the form; so is a click on a found user.
\<close>

theorem signed_out_writes_nothing:
  "fst (sendMessage None C (st, cs)) = st \<and>
   toasts (snd (sendMessage None C (st, cs))) = toasts cs \<and>
   location (snd (sendMessage None C (st, cs))) = location cs \<and>
   createDM None other (st, nc) = (st, nc\<lparr>creatingChat := False\<rparr>) \<and>
   fst (createGroup None (st, nc)) = st \<and>
   location (snd (createGroup None (st, nc))) = location nc \<and>
   (selectedUsers nc \<noteq> [] \<longrightarrow> createGroup None (st, nc) = (st, nc\<lparr>creatingChat := False\<rparr>)) \<and>
   fst (Create_Group_button None (st, nc)) = st \<and>
   toasts (snd (Create_Group_button None (st, nc))) = toasts nc \<and>
   location (snd (Create_Group_button None (st, nc))) = location nc \<and>
   fst (user_button None other (st, nc)) = st \<and>
   toasts (snd (user_button None other (st, nc))) = toasts nc \<and>
   location (snd (user_button None other (st, nc))) = location nc"
  by (simp add: sendMessage_def createDM_def createGroup_def Let_def
      Create_Group_button_def user_button_def)

text \<open>With Bob selected and nobody signed in, createGroup and createDM do nothing.\<close>

theorem signed_out_writes_nothing_witness:
  "selectedUsers unnamed_group_form \<noteq> [] \<and>
   createGroup None (fresh_store, unnamed_group_form) = (fresh_store, unnamed_group_form) \<and>
   createDM None bob (fresh_store, unnamed_group_form) = (fresh_store, unnamed_group_form)"
proof -
  have sel: "selectedUsers unnamed_group_form \<noteq> []"
    by (simp add: unnamed_group_form_def new_chat_form_def)
  have idle: "unnamed_group_form\<lparr>creatingChat := False\<rparr> = unnamed_group_form"
    by (simp add: unnamed_group_form_def new_chat_form_def)
  from signed_out_writes_nothing
         [where st = fresh_store and nc = unnamed_group_form and other = bob] sel idle
  show ?thesis by simp
qed

section \<open>What the caller cannot see\<close>

text \<open>
  The only \<open>SELECT\<close> policy on \<open>chat_members\<close> shows a caller their own rows, and the
  queries for the other members of a chat exclude exactly those: they never return a row.
\<close>

lemma otherMembers_hidden: "otherMembers (Some user) user chatId st = []"
  by (auto simp: otherMembers_def select_chat_members_def view_own_chat_memberships_def
      filter_empty_conv)

lemma find_existing_dm_never: "find_existing_dm (Some user) user other st xs = None"
  by (induction xs) (simp_all add: otherMembers_hidden)

lemma otherMember_never: "otherMember (Some user) user chatId st = Inl NotSingleRow"
proof -
  have "filter (\<lambda>m. member_chat_id m = chatId \<and> member_user_id m \<noteq> user)
          (select_chat_members (Some user) st) = []"
    by (auto simp: select_chat_members_def view_own_chat_memberships_def filter_empty_conv)
  then show ?thesis by (simp add: otherMember_def single_def)
qed

lemma dm_otherUser_never: "dm_otherUser (Some user) user c st = None"
  by (simp add: dm_otherUser_def otherMember_never data_def)

text \<open>
  A new chat has no member yet, so the caller who inserts it may not see it, and the
  insert that returns the row is refused: in a store whose keys are below the counter,
  no session can create a chat of either type.
\<close>

lemma new_chat_row_not_visible:
  assumes "ids_fresh st" and "chat_id c = next_uuid st"
  shows "\<not> view_chats_they_are_members_of auth st c"
  using assms by (auto simp: view_chats_they_are_members_of_def ids_fresh_def)

lemma insert_chat_refused:
  assumes "ids_fresh st"
  shows "insert_chat auth ty nm creator st = Inl (RlsViolation ''chats'')"
  using new_chat_row_not_visible [OF assms]
  by (simp add: insert_chat_def Let_def)

lemma createDM_refused:
  assumes "ids_fresh st"
  shows "createDM (Some u) other (st, nc) =
     (st, nc\<lparr>toasts := toasts nc @ [error_toast (ErrorMessage (RlsViolation ''chats''))],
             creatingChat := False\<rparr>)"
  by (simp add: createDM_def Let_def find_existing_dm_never insert_chat_refused [OF assms])

lemma createGroup_refused:
  assumes "ids_fresh st" and "selectedUsers nc \<noteq> []"
  shows "createGroup (Some u) (st, nc) =
     (st, nc\<lparr>toasts := toasts nc @ [error_toast (ErrorMessage (RlsViolation ''chats''))],
             creatingChat := False\<rparr>)"
  using assms(2) by (simp add: createGroup_def Let_def insert_chat_refused [OF assms(1)])

section \<open>Direct chats\<close>

text \<open>
  C2, evaluated on the code. Principal 1 opens a direct chat with Bob (principal 2),
  twice in a row, in a store that holds the direct chat 0 of the two. The scan over the
  chats of principal 1 does not find chat 0, the insert of a new chat is refused, and
  both calls end with an error toast on the form they started from: neither returns the
  id of a conversation. The same two calls in a store without chats end the same way.
\<close>

theorem createDM_twice_no_chat:
  "membersOf direct_store 0 = [1, 2] \<and>
   find_existing_dm (Some 1) 1 (profile_id bob) direct_store (existingChats (Some 1) 1 direct_store) = None \<and>
   createDM (Some 1) bob (direct_store, new_chat_form) =
     (direct_store, new_chat_form\<lparr>toasts := [chats_refused]\<rparr>) \<and>
   createDM (Some 1) bob (direct_store, new_chat_form\<lparr>toasts := [chats_refused]\<rparr>) =
     (direct_store, new_chat_form\<lparr>toasts := [chats_refused, chats_refused]\<rparr>) \<and>
   location (new_chat_form\<lparr>toasts := [chats_refused, chats_refused]\<rparr>) = NewChatPath \<and>
   createDM (Some 1) bob (createDM (Some 1) bob (fresh_store, new_chat_form)) =
     (fresh_store, new_chat_form\<lparr>toasts := [chats_refused, chats_refused]\<rparr>)"
  by code_simp

text \<open>
  C6, evaluated on the code. Principal 1 opens a direct chat with Bob, another
  principal, in a store without chats: the insert of the chat is refused, and the store
  afterwards holds no chat and no membership row for either of the two.
\<close>

theorem createDM_stores_nothing:
  "profile_id bob \<noteq> 1 \<and>
   createDM (Some 1) bob (fresh_store, new_chat_form) =
     (fresh_store, new_chat_form\<lparr>toasts := [chats_refused]\<rparr>) \<and>
   chats (fst (createDM (Some 1) bob (fresh_store, new_chat_form))) = [] \<and>
   chat_members (fst (createDM (Some 1) bob (fresh_store, new_chat_form))) = []"
  by code_simp

section \<open>Groups\<close>


section \<open>Chat names\<close>

text \<open>
  C8, evaluated on the code. In the store with the direct chat 0 of principals 1 and 2,
  the profile of principal 2 resolves, with the display name \<open>Bob\<close>. Principal 1 loads
  the chat screen and the chat list: in both the chat has no other user attached, and
  the name shown is \<open>Unknown User\<close>.
\<close>

theorem direct_chat_shows_unknown_user:
  "membersOf direct_store 0 = [1, 2] \<and>
   sender_profile (Some 1) direct_store 2 = Inr (profile_fields bob) \<and>
   sender_display_name (profile_fields bob) = ''Bob'' \<and>
   map_option otherUser (chat (loadChat (Some 1) 0 direct_store empty_screen)) = Some None \<and>
   ChatScreen_getChatName (chat (loadChat (Some 1) 0 direct_store empty_screen)) = ''Unknown User'' \<and>
   map type (list_chats (loadChats (Some 1) direct_store empty_list)) = [''dm''] \<and>
   map getChatName (list_chats (loadChats (Some 1) direct_store empty_list)) = [''Unknown User'']"
  by code_simp

end
